theory Spec2Isabelle
  imports Complex_Main
begin

section \<open>The submission engine of the JavaScript client\<close>

text \<open>
  The development embeds \<^verbatim>\<open>client/js/src/utils/submit.ts\<close>, its sibling copy
  \<^verbatim>\<open>unnamed/part_003\<close> and \<^verbatim>\<open>client/js/src/client.ts\<close>.
  The closure variables of one \<^verbatim>\<open>submit\<close> call are a record that every operation
  takes and returns; whatever leaves the closure (a \<^verbatim>\<open>fire_event\<close> call, a wire
  message, a call on a transport handle, a console message) is an entry of an effect list, in
  program order. A rejected promise is a value of its own.

  Not represented: the \<^verbatim>\<open>time: new Date()\<close> field of events, and the
  \<^verbatim>\<open>endpoint\<close>, \<^verbatim>\<open>fn_index\<close>, \<^verbatim>\<open>event_data\<close>
  and \<^verbatim>\<open>trigger_id\<close> fields, which are constants of the submission copied
  into each event. Listeners are passive: they do not call back into the handle.
\<close>

subsection \<open>Data\<close>

datatype json = JUndefined | JNull | JNum int | JStr string | JArr "json list"

datatype stage = Pending | Generating | Complete | Error

text \<open>A \<^verbatim>\<open>Status\<close> object; the fields the engine reads or sets.\<close>

record status =
  st_stage :: stage
  st_queue :: bool
  st_message :: "string option"
  st_eta :: "real option"
  st_broken :: bool

datatype event_type = Status_type | Data_type | Log_type

text \<open>
  An event as passed to \<^verbatim>\<open>fire_event\<close>. A status event lists stage, queue,
  message, eta and broken; the stage is \<open>None\<close> where the source writes
  \<^verbatim>\<open>status?.stage\<close> with no status at hand.
\<close>

datatype event =
    Status_ev "stage option" bool "string option" "real option" bool
  | Data_ev json
  | Log_ev "string option" "string option"

fun ev_type :: "event \<Rightarrow> event_type" where
  "ev_type (Status_ev _ _ _ _ _) = Status_type"
| "ev_type (Data_ev _) = Data_type"
| "ev_type (Log_ev _ _) = Log_type"


text \<open>Listeners are compared by reference; a natural number stands for the reference.\<close>

type_synonym listener = nat

type_synonym listener_map = "event_type \<rightharpoonup> listener list"

text \<open>The body of the \<^verbatim>\<open>/reset\<close> request.\<close>

datatype reset_body = Reset_ws nat string | Reset_event "string option"

text \<open>
  Requests the client sends: the URL (for the two GET requests its part before the query
  or the last path segment), then what the request carries.
  \<^item> \<open>Run_post url payload session_hash\<close>: \<^verbatim>\<open>POST ${root}/run${endpoint}\<close>;
  \<^item> \<open>Join_post url payload session_hash\<close>: \<^verbatim>\<open>POST ${root}/queue/join\<close>;
  \<^item> \<open>Join_get url fn_index session_hash\<close>: the \<^verbatim>\<open>EventSource\<close> of the
    \<^verbatim>\<open>sse\<close> protocol;
  \<^item> \<open>Reset_post url body\<close>: \<^verbatim>\<open>POST ${root}/reset\<close>;
  \<^item> \<open>Heartbeat_get root session_hash\<close>: \<^verbatim>\<open>GET ${root}/heartbeat/${session_hash}\<close>.
\<close>

datatype wire =
    Run_post string json string
  | Join_post string json string
  | Join_get string nat string
  | Reset_post string reset_body
  | Heartbeat_get string string

text \<open>
  The value of \<^verbatim>\<open>event_source\<close>: an \<^verbatim>\<open>EventSource\<close> on a URL, or the
  plain function \<^verbatim>\<open>() => {}\<close> that \<^verbatim>\<open>eventSource_factory\<close> returns
  without one.
\<close>

datatype es_handle = EventSource_object wire | Noop_function

datatype src_version = Submit_ts | Part_003

text \<open>
  What \<^verbatim>\<open>handle_message\<close> returns for a frame. The function is imported from
  \<^verbatim>\<open>../helpers\<close> and is not among the sources, so a frame is given by the result
  of interpreting it: an exception, or the triple \<^verbatim>\<open>{type, status, data}\<close>.
\<close>

datatype msg_type =
  Update | Hash | Data | Complete_msg | Generating_msg | Log | No_type | Heartbeat | Unexpected_error

record hdata =
  hd_data :: json
  hd_log :: "string option"
  hd_level :: "string option"

datatype interp = Throws | Handled msg_type "status option" "hdata option"

record frame =
  fr_event_id :: "string option"
  fr_interp :: interp

datatype effect =
    Fire event
  | Wire wire
  | WS_open
  | WS_close
  | WS_close_on_open
  | ES_close
  | Invoke string frame
  | Open_stream
  | Close_stream bool "es_handle option"
  | Console_error string
  | Console_warn string
  | Throw string

text \<open>
  The configuration a submission reads. \<^verbatim>\<open>protocol\<close> is the value of
  \<^verbatim>\<open>config.protocol ?? "ws"\<close>; \<^verbatim>\<open>skip_queue\<close> is the value of
  \<^verbatim>\<open>skip_queue(fn_index, config)\<close>; the two message constants come from
  \<^verbatim>\<open>../constants\<close>; \<^verbatim>\<open>apply_diff_stream\<close> comes from
  \<^verbatim>\<open>./stream\<close> and yields \<open>None\<close> when it throws.
\<close>

record config =
  version :: src_version
  root :: string
  protocol :: string
  skip_queue :: bool
  url_params :: string
  QUEUE_FULL_MSG :: string
  BROKEN_CONNECTION_MSG :: string
  apply_diff_stream :: "(string \<rightharpoonup> json) \<Rightarrow> string \<Rightarrow> hdata \<Rightarrow> ((string \<rightharpoonup> json) \<times> hdata) option"

text \<open>The closure variables of one \<^verbatim>\<open>submit\<close> call.\<close>

record sub =
  sid :: nat
  fn_index :: nat
  endpoint :: string
  payload :: json
  session_hash :: string
  event_id :: "string option"
  complete :: "status option"
  listener_map :: listener_map
  websocket_defined :: bool
  event_stream :: "es_handle option"
  stream_open :: bool

text \<open>
  The multiplex registries: locals of the call in \<^verbatim>\<open>submit.ts\<close>, fields of the
  client in \<^verbatim>\<open>part_003\<close>. A callback is named by the \<open>sid\<close> of the
  submission whose closure it is.
\<close>

record regs =
  event_callbacks :: "string \<rightharpoonup> nat"
  unclosed_events :: "string set"
  pending_stream_messages :: "string \<rightharpoonup> frame list"
  pending_diff_streams :: "string \<rightharpoonup> json"

record client =
  cl_session_hash :: string
  cl_stream_open :: bool

text \<open>The JavaScript environment: which globals exist.\<close>

record env =
  window_defined :: bool
  EventSource_defined :: bool

datatype jsval = JS_undefined | JS_string string

datatype promise = Resolved | Rejected string

text \<open>The outcome of an awaited request: its value, or the message of what it threw.\<close>

datatype 'a settled = Fulfilled 'a | Thrown string

text \<open>The \<^verbatim>\<open>output\<close> object of a \<^verbatim>\<open>/run\<close> reply.\<close>

record run_output =
  out_data :: json
  out_error :: "string option"
  out_average_duration :: "real option"

text \<open>
  What \<^verbatim>\<open>cancel\<close> reads from outside the closure when it runs: the socket's
  \<^verbatim>\<open>readyState\<close>, and whether the \<^verbatim>\<open>/reset\<close> request throws.
\<close>

record cancel_env =
  readyState :: nat
  reset_throws :: bool

subsection \<open>Listeners\<close>

definition listeners_of :: "listener_map \<Rightarrow> event_type \<Rightarrow> listener list" where
  "listeners_of lm t = (case lm t of None \<Rightarrow> [] | Some ls \<Rightarrow> ls)"

definition fire_event :: "listener_map \<Rightarrow> event \<Rightarrow> (listener \<times> event) list" where
  "fire_event lm ev = map (\<lambda>l. (l, ev)) (listeners_of lm (ev_type ev))"

definition on :: "listener_map \<Rightarrow> event_type \<Rightarrow> listener \<Rightarrow> listener_map" where
  "on lm t l = lm(t \<mapsto> listeners_of lm t @ [l])"

definition off :: "listener_map \<Rightarrow> event_type \<Rightarrow> listener \<Rightarrow> listener_map" where
  "off lm t l = lm(t \<mapsto> filter (\<lambda>x. x \<noteq> l) (listeners_of lm t))"

text \<open>
  The reading of the specification, "remove first matching listener by identity", to compare
  \<open>off\<close> with.
\<close>

definition off_first_only :: "listener_map \<Rightarrow> event_type \<Rightarrow> listener \<Rightarrow> listener_map" where
  "off_first_only lm t l = lm(t \<mapsto> remove1 l (listeners_of lm t))"

text \<open>What the listeners receive from a run of effects, in order.\<close>

fun received :: "listener_map \<Rightarrow> effect list \<Rightarrow> (listener \<times> event) list" where
  "received lm [] = []"
| "received lm (Fire ev # es) = fire_event lm ev @ received lm es"
| "received lm (_ # es) = received lm es"

fun fired :: "effect list \<Rightarrow> event list" where
  "fired [] = []"
| "fired (Fire ev # es) = ev # fired es"
| "fired (_ # es) = fired es"

subsection \<open>Creating a submission and choosing the transport\<close>

text \<open>
  The synchronous part of \<^verbatim>\<open>submit\<close>, for an endpoint already resolved to
  \<open>fi\<close> and \<open>ep\<close> (\<^verbatim>\<open>fn_index\<close> and \<^verbatim>\<open>_endpoint\<close>).
  \<open>rnd\<close> is the value that \<^verbatim>\<open>Math.random().toString(36).substring(2)\<close> yields in
  this call: \<^verbatim>\<open>submit.ts\<close> line 40 takes it as the session hash, \<^verbatim>\<open>part_003\<close>
  line 45 reads \<^verbatim>\<open>this.session_hash\<close>.
\<close>

definition submit :: "config \<Rightarrow> client \<Rightarrow> string \<Rightarrow> nat \<Rightarrow> nat \<Rightarrow> string \<Rightarrow> json \<Rightarrow> sub" where
  "submit c cl rnd n fi ep pl =
     \<lparr> sid = n, fn_index = fi, endpoint = ep, payload = pl,
       session_hash = (case version c of Submit_ts \<Rightarrow> rnd | Part_003 \<Rightarrow> cl_session_hash cl),
       event_id = None, complete = None, listener_map = Map.empty,
       websocket_defined = False, event_stream = None,
       stream_open = (case version c of Submit_ts \<Rightarrow> False | Part_003 \<Rightarrow> cl_stream_open cl) \<rparr>"

definition typeof_window :: "env \<Rightarrow> jsval" where
  "typeof_window e = JS_string (if window_defined e then ''object'' else ''undefined'')"

definition typeof_EventSource :: "env \<Rightarrow> jsval" where
  "typeof_EventSource e = JS_string (if EventSource_defined e then ''function'' else ''undefined'')"

text \<open>
  \<^verbatim>\<open>Client.eventSource_factory\<close>: the value returned and the request that constructing
  an \<^verbatim>\<open>EventSource\<close> starts. The source compares \<^verbatim>\<open>typeof window\<close> with the
  value \<^verbatim>\<open>undefined\<close>, not with the string.
\<close>

definition eventSource_factory :: "env \<Rightarrow> wire \<Rightarrow> es_handle \<times> effect list" where
  "eventSource_factory e url =
     (if typeof_window e \<noteq> JS_undefined \<and> typeof_EventSource e \<noteq> JS_string ''undefined''
      then (EventSource_object url, [Wire url])
      else (Noop_function, []))"

text \<open>
  The frames that reach an \<^verbatim>\<open>onmessage\<close> handler set on the handle, of the frames
  the server sends: the plain function has no connection and never calls the property.
\<close>

fun onmessage_calls :: "es_handle \<Rightarrow> frame list \<Rightarrow> frame list" where
  "onmessage_calls (EventSource_object url) fs = fs"
| "onmessage_calls Noop_function fs = []"

text \<open>The heartbeat of \<^verbatim>\<open>Client.init\<close> (\<^verbatim>\<open>client.ts\<close> lines 126 to 130).\<close>

definition init_heartbeat :: "env \<Rightarrow> config \<Rightarrow> client \<Rightarrow> es_handle \<times> effect list" where
  "init_heartbeat e c cl = eventSource_factory e (Heartbeat_get (root c) (cl_session_hash cl))"

definition run_url :: "config \<Rightarrow> sub \<Rightarrow> string" where
  "run_url c s =
     root c @ ''/run'' @ (if take 1 (endpoint s) = ''/'' then endpoint s else ''/'' @ endpoint s)
       @ (if url_params c \<noteq> [] then ''?'' @ url_params c else [])"

definition sse_mux :: "config \<Rightarrow> bool" where
  "sse_mux c \<longleftrightarrow>
     protocol c = ''sse_v1'' \<or> protocol c = ''sse_v2'' \<or> protocol c = ''sse_v2.1'' \<or> protocol c = ''sse_v3''"

definition pending_ev :: "bool \<Rightarrow> event" where
  "pending_ev q = Status_ev (Some Pending) q None None False"

text \<open>
  The handler of \<^verbatim>\<open>handle_blob(...).then\<close> up to the first request of each branch.
  In the \<^verbatim>\<open>sse\<close> branch \<^verbatim>\<open>submit.ts\<close> declares a block-local
  \<^verbatim>\<open>event_stream\<close> (line 383), so the variable \<^verbatim>\<open>cancel\<close> reads stays
  unassigned; \<^verbatim>\<open>part_003\<close> assigns \<^verbatim>\<open>event_source\<close> from the factory
  (line 402). No branch of either file assigns it for the multiplexed protocols.
  \<^verbatim>\<open>new EventSource(url)\<close> without the constructor throws and ends the handler. In the
  multiplexed branch \<^verbatim>\<open>part_003\<close> reads \<^verbatim>\<open>window.location.hostname\<close>
  (line 509) after the pending status: without a global \<^verbatim>\<open>window\<close> that throws a
  \<^verbatim>\<open>ReferenceError\<close> and the join request is not made.
\<close>

definition on_payload :: "env \<Rightarrow> config \<Rightarrow> sub \<Rightarrow> sub \<times> effect list" where
  "on_payload e c s =
     (if skip_queue c then
        (s, [Fire (pending_ev False), Wire (Run_post (run_url c s) (payload s) (session_hash s))])
      else if protocol c = ''ws'' then
        (s\<lparr>websocket_defined := True\<rparr>, [Fire (pending_ev True), WS_open])
      else if protocol c = ''sse'' then
        (let url = Join_get (root c @ ''/queue/join'') (fn_index s) (session_hash s) in
         case version c of
           Submit_ts \<Rightarrow>
             (s, Fire (pending_ev True)
                   # (if EventSource_defined e then [Wire url] else [Throw ''ReferenceError'']))
         | Part_003 \<Rightarrow>
             (s\<lparr>event_stream := Some (fst (eventSource_factory e url))\<rparr>,
              Fire (pending_ev True) # snd (eventSource_factory e url)))
      else if sse_mux c then
        (s, Fire (pending_ev True)
              # (if version c = Part_003 \<and> \<not> window_defined e then [Throw ''ReferenceError'']
                 else [Wire (Join_post (root c @ ''/queue/join?'' @ url_params c) (payload s)
                               (session_hash s))]))
      else (s, []))"

subsection \<open>The direct transport\<close>

text \<open>
  The \<^verbatim>\<open>.then\<close> and \<^verbatim>\<open>.catch\<close> handlers on \<^verbatim>\<open>post_data\<close> of the
  \<^verbatim>\<open>skip_queue\<close> branch, given how the request settled.
\<close>

definition run_reply :: "(run_output \<times> nat) settled \<Rightarrow> effect list" where
  "run_reply r =
     (case r of
        Fulfilled (out, status_code) \<Rightarrow>
          if status_code = 200 then
            [Fire (Data_ev (out_data out)),
             Fire (Status_ev (Some Complete) False None (out_average_duration out) False)]
          else [Fire (Status_ev (Some Error) False (out_error out) None False)]
      | Thrown msg \<Rightarrow> [Fire (Status_ev (Some Error) False (Some msg) None False)])"

subsection \<open>Cancellation\<close>

definition cancel_status :: status where
  "cancel_status =
     \<lparr> st_stage = Complete, st_queue = False, st_message = None, st_eta = None, st_broken = False \<rparr>"

definition reset_warning :: string where
  "reset_warning =
     ''The `/reset` endpoint could not be called. Subsequent endpoint results may be unreliable.''"

definition reset_request :: "config \<Rightarrow> cancel_env \<Rightarrow> reset_body \<Rightarrow> effect list" where
  "reset_request c ce body =
     Wire (Reset_post (root c @ ''/reset'') body)
       # (if reset_throws ce then [Console_warn reset_warning] else [])"

text \<open>
  \<^verbatim>\<open>cancel\<close>. Calling \<^verbatim>\<open>close\<close> on a variable that holds
  \<^verbatim>\<open>undefined\<close>, or on the plain function of the factory, throws a
  \<^verbatim>\<open>TypeError\<close>; \<^verbatim>\<open>cancel\<close> is \<^verbatim>\<open>async\<close>, so its promise is
  rejected and the statements after the call do not run.
\<close>

definition cancel :: "config \<Rightarrow> cancel_env \<Rightarrow> sub \<Rightarrow> sub \<times> effect list \<times> promise" where
  "cancel c ce s =
     (let s1 = s\<lparr>complete := Some cancel_status\<rparr>;
          e1 = [Fire (Status_ev (Some Complete) False None None False)]
      in if protocol c = ''ws'' then
           (if websocket_defined s then
              (s1,
               e1 @ [if readyState ce = 0 then WS_close_on_open else WS_close]
                  @ reset_request c ce (Reset_ws (fn_index s) (session_hash s)),
               Resolved)
            else (s1, e1, Rejected ''TypeError''))
         else
           (case event_stream s of
              Some (EventSource_object u) \<Rightarrow>
                (s1, e1 @ [ES_close] @ reset_request c ce (Reset_event (event_id s)), Resolved)
            | _ \<Rightarrow> (s1, e1, Rejected ''TypeError'')))"

subsection \<open>The frame callback of the multiplexed protocols\<close>

definition js_key :: "string option \<Rightarrow> string" where
  "js_key k = (case k of None \<Rightarrow> ''null'' | Some e \<Rightarrow> e)"

definition terminal_status :: "status option \<Rightarrow> bool" where
  "terminal_status st =
     (case st of None \<Rightarrow> False | Some x \<Rightarrow> st_stage x = Complete \<or> st_stage x = Error)"

definition status_ev :: "status \<Rightarrow> event" where
  "status_ev x = Status_ev (Some (st_stage x)) (st_queue x) (st_message x) (st_eta x) (st_broken x)"

definition generating_ev :: "status option \<Rightarrow> event" where
  "generating_ev st =
     (case st of
        None \<Rightarrow> Status_ev None True None None False
      | Some x \<Rightarrow> Status_ev (Some (st_stage x)) True (st_message x) (st_eta x) (st_broken x))"

definition deferred_ev :: "status \<Rightarrow> status option \<Rightarrow> event" where
  "deferred_ev cs st =
     Status_ev (map_option st_stage st) True (st_message cs) (st_eta cs) (st_broken cs)"

definition default_message :: string where
  "default_message = ''An Unexpected Error Occurred!''"

definition error_message :: "status option \<Rightarrow> string" where
  "error_message st =
     (case st of
        None \<Rightarrow> default_message
      | Some x \<Rightarrow>
          (case st_message x of
             None \<Rightarrow> default_message
           | Some m \<Rightarrow> if m = [] then default_message else m))"

definition unregister :: "string \<Rightarrow> regs \<Rightarrow> regs" where
  "unregister e r =
     r\<lparr>event_callbacks := (event_callbacks r)(e := None),
       pending_diff_streams := (pending_diff_streams r)(e := None)\<rparr>"

definition diff_protocol :: "config \<Rightarrow> bool" where
  "diff_protocol c \<longleftrightarrow>
     protocol c = ''sse_v2'' \<or> protocol c = ''sse_v2.1'' \<or> protocol c = ''sse_v3''"

text \<open>
  The tail of the \<^verbatim>\<open>try\<close> block, from \<^verbatim>\<open>if (data)\<close> on: the data event, the
  deferred status when \<^verbatim>\<open>complete\<close> is set, and the removal of the callback on a
  terminal stage. \<open>effs\<close> is what the branch before has done.
\<close>

definition finish ::
  "status option \<Rightarrow> hdata option \<Rightarrow> sub \<times> regs \<Rightarrow> effect list \<Rightarrow> (sub \<times> regs) \<times> effect list \<times> bool"
where
  "finish st d sr effs =
     (case sr of (s, r) \<Rightarrow>
        ((s, if terminal_status st then unregister (js_key (event_id s)) r else r),
         effs @
           (case d of
              None \<Rightarrow> []
            | Some x \<Rightarrow>
                Fire (Data_ev (hd_data x))
                  # (case complete s of None \<Rightarrow> [] | Some cs \<Rightarrow> [Fire (deferred_ev cs st)])),
         False))"

text \<open>
  The \<^verbatim>\<open>try\<close> block of the callback: the state, the effects up to the point reached,
  and whether an exception left the block. An exception comes from \<^verbatim>\<open>handle_message\<close>,
  from \<^verbatim>\<open>data.log\<close> on a log message without data, or from
  \<^verbatim>\<open>apply_diff_stream\<close>.
\<close>

definition handle_frame :: "config \<Rightarrow> sub \<times> regs \<Rightarrow> frame \<Rightarrow> (sub \<times> regs) \<times> effect list \<times> bool" where
  "handle_frame c sr f =
     (case sr of (s, r) \<Rightarrow>
        (case fr_interp f of
           Throws \<Rightarrow> (sr, [], True)
         | Handled t st d \<Rightarrow>
             if t = Heartbeat then (sr, [], False)
             else if t = Update \<and> st \<noteq> None \<and> complete s = None then
               finish st d sr (case st of None \<Rightarrow> [] | Some x \<Rightarrow> [Fire (status_ev x)])
             else if t = Complete_msg then finish st d (s\<lparr>complete := st\<rparr>, r) []
             else if t = Unexpected_error then
               finish st d sr
                 [Console_error ''Unexpected error'',
                  Fire (Status_ev (Some Error) True (Some (error_message st)) None False)]
             else if t = Log then
               (case d of
                  None \<Rightarrow> (sr, [], True)
                | Some x \<Rightarrow> (sr, [Fire (Log_ev (hd_log x) (hd_level x))], False))
             else if t = Generating_msg then
               (case d of
                  None \<Rightarrow> finish st d sr [Fire (generating_ev st)]
                | Some x \<Rightarrow>
                    if diff_protocol c then
                      (case apply_diff_stream c (pending_diff_streams r) (js_key (event_id s)) x of
                         None \<Rightarrow> (sr, [Fire (generating_ev st)], True)
                       | Some (m, x') \<Rightarrow>
                           finish st (Some x') (s, r\<lparr>pending_diff_streams := m\<rparr>)
                             [Fire (generating_ev st)])
                    else finish st d sr [Fire (generating_ev st)])
             else finish st d sr []))"

definition closes_on_exception :: "config \<Rightarrow> bool" where
  "closes_on_exception c \<longleftrightarrow> protocol c = ''sse_v2'' \<or> protocol c = ''sse_v2.1''"

definition unexpected_ev :: event where
  "unexpected_ev = Status_ev (Some Error) True (Some default_message) None False"

text \<open>
  The callback: the \<^verbatim>\<open>try\<close> block and its \<^verbatim>\<open>catch\<close>.
  \<^verbatim>\<open>close_stream\<close> is not among the sources; the call is recorded with the two
  arguments it is given. Only \<^verbatim>\<open>part_003\<close> then sets \<^verbatim>\<open>stream_open\<close>.
\<close>

definition callback :: "config \<Rightarrow> sub \<times> regs \<Rightarrow> frame \<Rightarrow> (sub \<times> regs) \<times> effect list" where
  "callback c sr f =
     (case handle_frame c sr f of
        (sr', effs, threw) \<Rightarrow>
          if threw then
            (case sr' of (s, r) \<Rightarrow>
               ((if closes_on_exception c \<and> version c = Part_003 then s\<lparr>stream_open := False\<rparr> else s, r),
                effs @ [Console_error ''Unexpected client exception'', Fire unexpected_ev]
                  @ (if closes_on_exception c then [Close_stream (stream_open s) (event_stream s)] else [])))
          else (sr', effs))"

subsection \<open>The reply to the join request\<close>

text \<open>
  \<^verbatim>\<open>pending_stream_messages[event_id].forEach((msg) => callback(msg))\<close>: the callback
  has no \<^verbatim>\<open>await\<close>, so each call runs to its end before the next. \<open>Invoke\<close>
  records the call.
\<close>

fun drain :: "config \<Rightarrow> string \<Rightarrow> sub \<times> regs \<Rightarrow> frame list \<Rightarrow> (sub \<times> regs) \<times> effect list" where
  "drain c e sr [] = (sr, [])"
| "drain c e sr (m # ms) =
     (case callback c sr m of
        (sr1, e1) \<Rightarrow> (case drain c e sr1 ms of (sr2, e2) \<Rightarrow> (sr2, Invoke e m # e1 @ e2)))"

definition error_ev :: "string \<Rightarrow> event" where
  "error_ev m = Status_ev (Some Error) True (Some m) None False"

text \<open>
  The property names every plain object inherits from \<^verbatim>\<open>Object.prototype\<close>:
  \<^verbatim>\<open>event_id in pending_stream_messages\<close> holds for them without an entry of that
  name, and what is read under the name then has no \<^verbatim>\<open>forEach\<close>.
\<close>

definition object_prototype_keys :: "string list" where
  "object_prototype_keys =
     [''constructor'', ''hasOwnProperty'', ''isPrototypeOf'', ''propertyIsEnumerable'',
      ''toLocaleString'', ''toString'', ''valueOf'', ''__proto__'', ''__defineGetter__'',
      ''__defineSetter__'', ''__lookupGetter__'', ''__lookupSetter__'']"

text \<open>
  The handler of the \<^verbatim>\<open>/queue/join\<close> reply, given \<^verbatim>\<open>response.event_id\<close>
  and the HTTP status. With an entry under the id, its frames are replayed and the entry is
  deleted; with no entry and an inherited name, \<^verbatim>\<open>forEach\<close> is called on a value
  that has none, which throws and ends the handler. \<^verbatim>\<open>submit.ts\<close> stores the
  callback under \<^verbatim>\<open>if (event_id)\<close> (the empty string is falsy);
  \<^verbatim>\<open>part_003\<close> stores it always. Both add the id to
  \<^verbatim>\<open>unclosed_events\<close> always.
\<close>

definition register :: "config \<Rightarrow> string \<Rightarrow> sub \<times> regs \<Rightarrow> effect list \<Rightarrow> (sub \<times> regs) \<times> effect list" where
  "register c eid sr es =
     (case sr of (s3, r3) \<Rightarrow>
        ((s3,
          (if version c = Submit_ts \<and> eid = [] then r3
           else r3\<lparr>event_callbacks := (event_callbacks r3)(eid \<mapsto> sid s3)\<rparr>)
            \<lparr>unclosed_events := insert eid (unclosed_events r3)\<rparr>),
         es @ (if stream_open s3 then [] else [Open_stream])))"

definition join_reply :: "config \<Rightarrow> sub \<times> regs \<Rightarrow> string \<Rightarrow> nat \<Rightarrow> (sub \<times> regs) \<times> effect list" where
  "join_reply c sr eid code =
     (case sr of (s, r) \<Rightarrow>
        if code = 503 then (sr, [Fire (error_ev (QUEUE_FULL_MSG c))])
        else if code \<noteq> 200 then (sr, [Fire (error_ev (BROKEN_CONNECTION_MSG c))])
        else
          (case pending_stream_messages r eid of
             None \<Rightarrow>
               if eid \<in> set object_prototype_keys
               then ((s\<lparr>event_id := Some eid\<rparr>, r), [Throw ''TypeError''])
               else register c eid (s\<lparr>event_id := Some eid\<rparr>, r) []
           | Some ms \<Rightarrow>
               (case drain c eid (s\<lparr>event_id := Some eid\<rparr>, r) ms of
                  ((s2, r2), es) \<Rightarrow>
                    register c eid
                      (s2, r2\<lparr>pending_stream_messages := (pending_stream_messages r2)(eid := None)\<rparr>)
                      es)))"

subsection \<open>Frames on the multiplex stream\<close>

text \<open>
  Modelled from the spec: the key under which the frame handler of \<^verbatim>\<open>open_stream\<close>
  files a frame, \<^verbatim>\<open>pendingStreamMessages[event_id]\<close>; a frame without
  \<^verbatim>\<open>event_id\<close> goes under the key \<^verbatim>\<open>undefined\<close>.
\<close>

definition frame_key :: "frame \<Rightarrow> string" where
  "frame_key f = (case fr_event_id f of None \<Rightarrow> ''undefined'' | Some e \<Rightarrow> e)"

text \<open>
  Modelled from the spec: the frame handler that \<^verbatim>\<open>open_stream\<close> installs
  (\<^verbatim>\<open>./stream\<close> is not among the sources). Section 4.5: "On each frame: parse; if
  frame has \<^verbatim>\<open>event_id\<close> and a callback is registered, invoke it; else append the frame
  to \<^verbatim>\<open>pendingStreamMessages[event_id]\<close>." The callback of the submission in hand is
  run; a callback of another submission is recorded as called and not run.
\<close>

definition stream_message :: "config \<Rightarrow> sub \<times> regs \<Rightarrow> frame \<Rightarrow> (sub \<times> regs) \<times> effect list" where
  "stream_message c sr f =
     (case sr of (s, r) \<Rightarrow>
        (case (if fr_event_id f = None then None else event_callbacks r (frame_key f)) of
           Some owner \<Rightarrow>
             if owner = sid s then
               (case callback c sr f of (sr1, es) \<Rightarrow> (sr1, Invoke (frame_key f) f # es))
             else (sr, [Invoke (frame_key f) f])
         | None \<Rightarrow>
             ((s, r\<lparr>pending_stream_messages :=
                      (pending_stream_messages r)
                        (frame_key f \<mapsto>
                           (case pending_stream_messages r (frame_key f) of
                              None \<Rightarrow> [] | Some ms \<Rightarrow> ms) @ [f])\<rparr>),
              [])))"

fun stream_messages :: "config \<Rightarrow> sub \<times> regs \<Rightarrow> frame list \<Rightarrow> (sub \<times> regs) \<times> effect list" where
  "stream_messages c sr [] = (sr, [])"
| "stream_messages c sr (f # fs) =
     (case stream_message c sr f of
        (sr1, e1) \<Rightarrow> (case stream_messages c sr1 fs of (sr2, e2) \<Rightarrow> (sr2, e1 @ e2)))"

text \<open>The frames handed to the callback registered under \<open>e\<close>, in order.\<close>

fun invoked :: "string \<Rightarrow> effect list \<Rightarrow> frame list" where
  "invoked e [] = []"
| "invoked e (Invoke k f # es) = (if k = e then f # invoked e es else invoked e es)"
| "invoked e (_ # es) = invoked e es"

subsection \<open>Notions the statements use\<close>

text \<open>The frames waiting under \<open>e\<close>, and the frames of a sequence that are filed under \<open>e\<close>.\<close>

definition buffered :: "regs \<Rightarrow> string \<Rightarrow> frame list" where
  "buffered r e = (case pending_stream_messages r e of None \<Rightarrow> [] | Some ms \<Rightarrow> ms)"

definition frames_for :: "string \<Rightarrow> frame list \<Rightarrow> frame list" where
  "frames_for e fs = filter (\<lambda>f. frame_key f = e) fs"





text \<open>
  Passing the frames \<open>ms\<close> to the callback one after the other, each once: the state after
  the calls, and the events of the calls, the call on the \<open>i\<close>-th frame made in the state
  that the calls on the frames before it left.
\<close>

definition replay_state :: "config \<Rightarrow> sub \<times> regs \<Rightarrow> frame list \<Rightarrow> sub \<times> regs" where
  "replay_state c sr ms = foldl (\<lambda>st m. fst (callback c st m)) sr ms"

definition replay_events :: "config \<Rightarrow> sub \<times> regs \<Rightarrow> frame list \<Rightarrow> event list" where
  "replay_events c sr ms =
     concat (map (\<lambda>i. fired (snd (callback c (replay_state c sr (take i ms)) (ms ! i))))
               [0..<length ms])"






definition at_reply :: "env \<Rightarrow> config \<Rightarrow> sub \<Rightarrow> regs \<Rightarrow> frame list \<Rightarrow> sub \<times> regs" where
  "at_reply en c s r fs1 = fst (stream_messages c (fst (on_payload en c s), r) fs1)"


definition after_reply ::
  "env \<Rightarrow> config \<Rightarrow> sub \<Rightarrow> regs \<Rightarrow> frame list \<Rightarrow> string \<Rightarrow> nat \<Rightarrow> sub \<times> regs"
where
  "after_reply en c s r fs1 e code = fst (join_reply c (at_reply en c s r fs1) e code)"


subsection \<open>Concrete inputs\<close>

text \<open>Three data listeners, listener 1 registered twice, and one status listener.\<close>

definition dup_listeners :: listener_map where
  "dup_listeners = on (on (on (on Map.empty Data_type 1) Data_type 2) Data_type 1) Status_type 5"

text \<open>
  Scenario S1: a dependency with \<^verbatim>\<open>skip_queue\<close>, the call
  \<^verbatim>\<open>("/predict", [2, 3])\<close> and the reply \<^verbatim>\<open>{data: [5], average_duration: 0.1}\<close>.
\<close>

definition s1_config :: config where
  "s1_config =
     \<lparr> version = Submit_ts, root = ''http://host'', protocol = ''sse_v3'', skip_queue = True,
       url_params = [], QUEUE_FULL_MSG = ''queue full'', BROKEN_CONNECTION_MSG = ''broken'',
       apply_diff_stream = (\<lambda>m e x. Some (m(e \<mapsto> hd_data x), x)) \<rparr>"

definition a_client :: client where
  "a_client = \<lparr> cl_session_hash = ''abc'', cl_stream_open = False \<rparr>"

definition browser :: env where
  "browser = \<lparr> window_defined = True, EventSource_defined = True \<rparr>"

definition s1_sub :: sub where
  "s1_sub = submit s1_config a_client ''xyz'' 0 0 ''/predict'' (JArr [JNum 2, JNum 3])"

definition s1_output :: run_output where
  "s1_output = \<lparr> out_data = JArr [JNum 5], out_error = None, out_average_duration = Some (1 / 10) \<rparr>"

definition node :: env where
  "node = \<lparr> window_defined = False, EventSource_defined = False \<rparr>"

text \<open>A dependency that goes through the queue, in either copy of the file.\<close>

definition mux_config :: "src_version \<Rightarrow> string \<Rightarrow> config" where
  "mux_config v p = s1_config\<lparr>version := v, protocol := p, skip_queue := False\<rparr>"

definition empty_regs :: regs where
  "empty_regs =
     \<lparr> event_callbacks = Map.empty, unclosed_events = {}, pending_stream_messages = Map.empty,
       pending_diff_streams = Map.empty \<rparr>"


definition new_sub :: "config \<Rightarrow> sub" where
  "new_sub c = fst (on_payload browser c (submit c a_client ''xyz'' 0 0 ''/gen'' (JArr [JStr ''hi''])))"

definition joined :: "config \<Rightarrow> string \<Rightarrow> sub \<times> regs" where
  "joined c e = fst (join_reply c (new_sub c, empty_regs) e 200)"

definition quiet :: cancel_env where
  "quiet = \<lparr> readyState = 1, reset_throws = False \<rparr>"

text \<open>\<^verbatim>\<open>handle.on(t, l)\<close> acts on the \<^verbatim>\<open>listener_map\<close> of the closure.\<close>

definition with_listener :: "sub \<Rightarrow> event_type \<Rightarrow> listener \<Rightarrow> sub" where
  "with_listener s t l = s\<lparr>listener_map := on (listener_map s) t l\<rparr>"

definition ws_sub :: sub where
  "ws_sub = with_listener (new_sub (mux_config Submit_ts ''ws'')) Status_type 7"

fun is_close_stream :: "effect \<Rightarrow> bool" where
  "is_close_stream (Close_stream _ _) = True"
| "is_close_stream _ = False"

definition throwing_frame :: frame where
  "throwing_frame = \<lparr> fr_event_id = Some ''E1'', fr_interp = Throws \<rparr>"

text \<open>
  Frames of scenario S2 as \<^verbatim>\<open>handle_message\<close> is described to read them:
  \<^verbatim>\<open>process_starts\<close>, \<^verbatim>\<open>process_generating\<close> and
  \<^verbatim>\<open>process_completed\<close> with their data.
\<close>

definition status_of :: "stage \<Rightarrow> status" where
  "status_of g = \<lparr> st_stage = g, st_queue = True, st_message = None, st_eta = None, st_broken = False \<rparr>"

definition only_data :: "json \<Rightarrow> hdata" where
  "only_data x = \<lparr> hd_data = x, hd_log = None, hd_level = None \<rparr>"

definition starts_frame :: "string \<Rightarrow> frame" where
  "starts_frame e = \<lparr> fr_event_id = Some e, fr_interp = Handled Update (Some (status_of Pending)) None \<rparr>"

definition gen_frame :: "string \<Rightarrow> json \<Rightarrow> frame" where
  "gen_frame e x =
     \<lparr> fr_event_id = Some e,
       fr_interp = Handled Generating_msg (Some (status_of Generating)) (Some (only_data x)) \<rparr>"

definition done_frame :: "string \<Rightarrow> json \<Rightarrow> frame" where
  "done_frame e x =
     \<lparr> fr_event_id = Some e,
       fr_interp = Handled Complete_msg (Some (status_of Complete)) (Some (only_data x)) \<rparr>"

section \<open>Theorems\<close>

lemma listeners_of_on: "listeners_of (on lm t l) t = listeners_of lm t @ [l]"
  by (simp add: on_def listeners_of_def)

subsection \<open>Listeners\<close>

lemma filter_neq_removeAll: "filter (\<lambda>x. x \<noteq> l) xs = removeAll l xs"
  by (induction xs) auto

lemma listeners_of_off_same: "listeners_of (off lm t l) t = removeAll l (listeners_of lm t)"
  by (simp add: off_def listeners_of_def filter_neq_removeAll)

lemma listeners_of_off_other: "t' \<noteq> t \<Longrightarrow> listeners_of (off lm t l) t' = listeners_of lm t'"
  by (simp add: off_def listeners_of_def)

lemma dup_listeners_data: "listeners_of dup_listeners Data_type = [1, 2, 1]"
  by (simp add: dup_listeners_def on_def listeners_of_def)

lemma dup_listeners_status: "listeners_of dup_listeners Status_type = [5]"
  by (simp add: dup_listeners_def on_def listeners_of_def)

text \<open>
  Claim C9 as stated fails: with listener 1 registered twice under \<^verbatim>\<open>data\<close>,
  \<^verbatim>\<open>off("data", 1)\<close> leaves only listener 2, where removing the first match alone
  would leave 2 and the later duplicate of 1; a data event fired afterwards reaches different
  listeners in the two readings.
\<close>

theorem off_first_only_counterexample:
  "listeners_of (off dup_listeners Data_type 1) Data_type = [2] \<and>
   listeners_of (off_first_only dup_listeners Data_type 1) Data_type = [2, 1] \<and>
   fire_event (off dup_listeners Data_type 1) (Data_ev JNull) \<noteq>
     fire_event (off_first_only dup_listeners Data_type 1) (Data_ev JNull)"
  by (simp add: off_def off_first_only_def fire_event_def listeners_of_def dup_listeners_def on_def)

text \<open>
  Claim C9, amended: \<^verbatim>\<open>off(type, listener)\<close> removes every listener registered under
  \<^verbatim>\<open>type\<close> that is identical to the given one, duplicates included. The other
  listeners of that type stay, in their order; the listeners of every other type are untouched;
  and an event of that type fired afterwards reaches exactly the listeners it reached before,
  less the removed one.
\<close>

theorem off_removes_every_occurrence:
  "listeners_of (off lm t l) t = removeAll l (listeners_of lm t) \<and>
   (\<forall>t'. t' \<noteq> t \<longrightarrow> listeners_of (off lm t l) t' = listeners_of lm t') \<and>
   (\<forall>ev. ev_type ev = t \<longrightarrow>
      fire_event (off lm t l) ev = filter (\<lambda>p. fst p \<noteq> l) (fire_event lm ev))"
proof (intro conjI allI impI)
  show "listeners_of (off lm t l) t = removeAll l (listeners_of lm t)"
    by (rule listeners_of_off_same)
next
  fix t' assume "t' \<noteq> t"
  then show "listeners_of (off lm t l) t' = listeners_of lm t'"
    by (rule listeners_of_off_other)
next
  fix ev assume "ev_type ev = t"
  then show "fire_event (off lm t l) ev = filter (\<lambda>p. fst p \<noteq> l) (fire_event lm ev)"
    by (simp add: fire_event_def listeners_of_off_same filter_map comp_def filter_neq_removeAll)
qed

theorem off_removes_every_occurrence_witness:
  "listeners_of (off dup_listeners Data_type 1) Data_type = [2] \<and>
   listeners_of (off dup_listeners Data_type 1) Status_type = [5] \<and>
   fire_event (off dup_listeners Data_type 1) (Data_ev JNull) = [(2, Data_ev JNull)]"
  using off_removes_every_occurrence [of dup_listeners Data_type 1]
  by (simp add: dup_listeners_data dup_listeners_status fire_event_def)

subsection \<open>The direct transport\<close>

text \<open>
  Claim C2: when the dependency has \<^verbatim>\<open>skip_queue\<close> set, the engine fires the pending
  status with \<^verbatim>\<open>queue: false\<close> and posts to \<^verbatim>\<open>${root}/run{endpoint}\<close>. A reply
  with HTTP 200 fires a data event with \<^verbatim>\<open>output.data\<close>, then a status event with stage
  complete, \<^verbatim>\<open>queue: false\<close> and \<^verbatim>\<open>eta = output.average_duration\<close>; any other
  status code fires one status event with stage error and message \<^verbatim>\<open>output.error\<close>; a
  request that throws fires one status event with stage error and the exception's message.
\<close>

theorem direct_transport_events:
  "skip_queue c \<Longrightarrow>
   on_payload e c s =
     (s, [Fire (pending_ev False), Wire (Run_post (run_url c s) (payload s) (session_hash s))]) \<and>
   run_reply (Fulfilled (out, 200)) =
     [Fire (Data_ev (out_data out)),
      Fire (Status_ev (Some Complete) False None (out_average_duration out) False)] \<and>
   (code \<noteq> 200 \<longrightarrow>
      run_reply (Fulfilled (out, code)) = [Fire (Status_ev (Some Error) False (out_error out) None False)]) \<and>
   run_reply (Thrown msg) = [Fire (Status_ev (Some Error) False (Some msg) None False)]"
  by (simp add: on_payload_def run_reply_def)

theorem direct_transport_events_witness:
  "skip_queue s1_config \<and>
   fired (snd (on_payload browser s1_config s1_sub) @ run_reply (Fulfilled (s1_output, 200))) =
     [Status_ev (Some Pending) False None None False,
      Data_ev (JArr [JNum 5]),
      Status_ev (Some Complete) False None (Some (1 / 10)) False] \<and>
   fired (run_reply (Fulfilled (s1_output\<lparr>out_error := Some ''boom''\<rparr>, 500))) =
     [Status_ev (Some Error) False (Some ''boom'') None False]"
  using direct_transport_events [of s1_config browser s1_sub s1_output 500]
    direct_transport_events [of s1_config browser s1_sub "s1_output\<lparr>out_error := Some ''boom''\<rparr>" 500]
  by (simp add: s1_config_def s1_output_def pending_ev_def)

subsection \<open>The event source factory\<close>

text \<open>
  Claim C10: \<^verbatim>\<open>Client.eventSource_factory\<close> returns a value for every URL: an
  \<^verbatim>\<open>EventSource\<close> on that URL when the global constructor exists, whether or not
  \<^verbatim>\<open>window\<close> does. Where the constructor is undefined it returns the plain no-op
  function and starts no request, so the heartbeat of \<^verbatim>\<open>init\<close> sends nothing and no
  frame reaches a handler set on the returned value.
\<close>

theorem eventSource_factory_total:
  "(eventSource_factory e url = (EventSource_object url, [Wire url]) \<or>
    eventSource_factory e url = (Noop_function, [])) \<and>
   (EventSource_defined e \<longrightarrow> eventSource_factory e url = (EventSource_object url, [Wire url])) \<and>
   (\<not> EventSource_defined e \<longrightarrow>
      eventSource_factory e url = (Noop_function, []) \<and>
      init_heartbeat e c cl = (Noop_function, []) \<and>
      onmessage_calls (fst (eventSource_factory e url)) fs = [])"
  by (simp add: eventSource_factory_def init_heartbeat_def typeof_window_def typeof_EventSource_def)

theorem eventSource_factory_total_witness:
  "\<not> EventSource_defined node \<and>
   eventSource_factory node (Heartbeat_get ''http://host'' ''abc'') = (Noop_function, []) \<and>
   init_heartbeat node s1_config a_client = (Noop_function, []) \<and>
   EventSource_defined browser \<and>
   init_heartbeat browser s1_config a_client =
     (EventSource_object (Heartbeat_get ''http://host'' ''abc''), [Wire (Heartbeat_get ''http://host'' ''abc'')])"
  using eventSource_factory_total [of node "Heartbeat_get ''http://host'' ''abc''" s1_config a_client "[]"]
    eventSource_factory_total [of browser "Heartbeat_get ''http://host'' ''abc''" s1_config a_client "[]"]
  by (simp add: node_def browser_def init_heartbeat_def s1_config_def a_client_def)

subsection \<open>Cancellation\<close>

lemma version_mux_config: "version (mux_config v p) = v"
  by (simp add: mux_config_def)

lemma protocol_mux_config: "protocol (mux_config v p) = p"
  by (simp add: mux_config_def)

lemma new_sub_mux:
  "new_sub (mux_config v ''sse_v3'') =
     \<lparr> sid = 0, fn_index = 0, endpoint = ''/gen'', payload = JArr [JStr ''hi''],
       session_hash = (case v of Submit_ts \<Rightarrow> ''xyz'' | Part_003 \<Rightarrow> ''abc''),
       event_id = None, complete = None, listener_map = Map.empty,
       websocket_defined = False, event_stream = None, stream_open = False \<rparr>"
  by (cases v)
    (simp_all add: new_sub_def mux_config_def s1_config_def on_payload_def submit_def sse_mux_def
      a_client_def)

lemma joined_sub:
  "fst (joined (mux_config v ''sse_v3'') ''E1'') =
     (new_sub (mux_config v ''sse_v3''))\<lparr>event_id := Some ''E1''\<rparr>"
  by (simp add: joined_def join_reply_def register_def object_prototype_keys_def empty_regs_def
      new_sub_mux split: prod.splits)

lemma cancel_ws:
  "protocol c = ''ws'' \<Longrightarrow> websocket_defined s \<Longrightarrow>
   cancel c ce s =
     (s\<lparr>complete := Some cancel_status\<rparr>,
      [Fire (Status_ev (Some Complete) False None None False),
       if readyState ce = 0 then WS_close_on_open else WS_close,
       Wire (Reset_post (root c @ ''/reset'') (Reset_ws (fn_index s) (session_hash s)))]
        @ (if reset_throws ce then [Console_warn reset_warning] else []),
      Resolved)"
  by (simp add: cancel_def reset_request_def Let_def)

text \<open>
  Claim C4 fails on the code for a submission on the multiplexed protocols: after
  \<^verbatim>\<open>submit("/gen", ["hi"])\<close> under \<^verbatim>\<open>sse_v3\<close> and a join reply that assigns
  \<^verbatim>\<open>E1\<close>, \<^verbatim>\<open>cancel()\<close> marks the submission complete and fires the synthetic
  status, then throws at \<^verbatim>\<open>close\<close> on the unassigned stream variable: the promise is
  rejected and no request goes to \<^verbatim>\<open>/reset\<close>. Both copies of the file behave so.
\<close>

theorem cancel_mux_rejects:
  "cancel (mux_config Submit_ts ''sse_v3'') quiet (fst (joined (mux_config Submit_ts ''sse_v3'') ''E1'')) =
     ((fst (joined (mux_config Submit_ts ''sse_v3'') ''E1''))\<lparr>complete := Some cancel_status\<rparr>,
      [Fire (Status_ev (Some Complete) False None None False)],
      Rejected ''TypeError'') \<and>
   cancel (mux_config Part_003 ''sse_v3'') quiet (fst (joined (mux_config Part_003 ''sse_v3'') ''E1'')) =
     ((fst (joined (mux_config Part_003 ''sse_v3'') ''E1''))\<lparr>complete := Some cancel_status\<rparr>,
      [Fire (Status_ev (Some Complete) False None None False)],
      Rejected ''TypeError'')"
  by (simp add: joined_sub new_sub_mux cancel_def protocol_mux_config Let_def)

lemma received_fired: "received lm es = concat (map (fire_event lm) (fired es))"
  by (induction lm es rule: received.induct) simp_all

lemma fired_append: "fired (a @ b) = fired a @ fired b"
  by (induction a rule: fired.induct) simp_all

lemma fired_reset_request: "fired (reset_request c ce b) = []"
  by (simp add: reset_request_def)

lemma fired_cancel: "fired (fst (snd (cancel c ce s))) = [Status_ev (Some Complete) False None None False]"
  by (simp add: cancel_def Let_def fired_append fired_reset_request split: option.splits es_handle.splits)

lemma cancel_state: "fst (cancel c ce s) = s\<lparr>complete := Some cancel_status\<rparr>"
  by (simp add: cancel_def Let_def split: option.splits es_handle.splits)

lemma ws_sub_eq:
  "ws_sub =
     \<lparr> sid = 0, fn_index = 0, endpoint = ''/gen'', payload = JArr [JStr ''hi''],
       session_hash = ''xyz'', event_id = None, complete = None,
       listener_map = on Map.empty Status_type 7,
       websocket_defined = True, event_stream = None, stream_open = False \<rparr>"
  by (simp add: ws_sub_def with_listener_def new_sub_def mux_config_def s1_config_def on_payload_def
      submit_def)

text \<open>
  Claim C5 as stated fails: on a \<^verbatim>\<open>ws\<close> submission with one status listener, the
  listener has received one synthetic status after the first \<^verbatim>\<open>cancel()\<close> and two after
  the second.
\<close>

theorem cancel_twice_counterexample:
  "received (listener_map ws_sub) (fst (snd (cancel (mux_config Submit_ts ''ws'') quiet ws_sub))) =
     [(7, Status_ev (Some Complete) False None None False)] \<and>
   received (listener_map ws_sub)
     (fst (snd (cancel (mux_config Submit_ts ''ws'') quiet ws_sub)) @
      fst (snd (cancel (mux_config Submit_ts ''ws'') quiet
                  (fst (cancel (mux_config Submit_ts ''ws'') quiet ws_sub))))) =
     [(7, Status_ev (Some Complete) False None None False),
      (7, Status_ev (Some Complete) False None None False)]"
  by (simp add: received_fired fired_append fired_cancel cancel_state)
     (simp add: ws_sub_eq fire_event_def on_def listeners_of_def)

text \<open>
  Claim C5, amended: \<^verbatim>\<open>cancel()\<close> is idempotent on the state of the submission only. A
  second call leaves the closure variables as the first call left them, and under the same
  conditions it repeats the first call step for step; in particular every call fires one more
  synthetic status event with stage complete and \<^verbatim>\<open>queue: false\<close>, so two calls fire two.
  (The time stamp of the status is not represented.)
\<close>

theorem cancel_repeats_event:
  "fst (cancel c ce' (fst (cancel c ce s))) = fst (cancel c ce s) \<and>
   cancel c ce (fst (cancel c ce s)) = cancel c ce s \<and>
   fired (fst (snd (cancel c ce s))) = [Status_ev (Some Complete) False None None False] \<and>
   fired (fst (snd (cancel c ce s)) @ fst (snd (cancel c ce' (fst (cancel c ce s))))) =
     [Status_ev (Some Complete) False None None False, Status_ev (Some Complete) False None None False]"
  by (simp add: fired_append fired_cancel cancel_state)
    (simp add: cancel_def Let_def split: option.splits es_handle.splits)

subsection \<open>The session hash\<close>

lemma session_hash_part_003:
  "version c = Part_003 \<Longrightarrow> session_hash (submit c cl rnd n fi ep pl) = cl_session_hash cl"
  by (simp add: submit_def)

lemma session_hash_submit_ts:
  "version c = Submit_ts \<Longrightarrow> session_hash (submit c cl rnd n fi ep pl) = rnd"
  by (simp add: submit_def)

text \<open>
  Claim C7 fails on \<^verbatim>\<open>submit.ts\<close>: in a session whose hash is \<^verbatim>\<open>abc\<close> the
  heartbeat carries \<^verbatim>\<open>abc\<close>, while the join request of a submission carries the value
  drawn in that call of \<^verbatim>\<open>submit\<close>, here \<^verbatim>\<open>xyz\<close> for one submission and
  \<^verbatim>\<open>uvw\<close> for the next.
\<close>

theorem session_hash_per_submit:
  "init_heartbeat browser (mux_config Submit_ts ''sse_v3'') a_client =
     (EventSource_object (Heartbeat_get ''http://host'' ''abc''),
      [Wire (Heartbeat_get ''http://host'' ''abc'')]) \<and>
   snd (on_payload browser (mux_config Submit_ts ''sse_v3'')
          (submit (mux_config Submit_ts ''sse_v3'') a_client ''xyz'' 0 0 ''/gen'' (JArr [JStr ''hi'']))) =
     [Fire (Status_ev (Some Pending) True None None False),
      Wire (Join_post ''http://host/queue/join?'' (JArr [JStr ''hi'']) ''xyz'')] \<and>
   snd (on_payload browser (mux_config Submit_ts ''sse_v3'')
          (submit (mux_config Submit_ts ''sse_v3'') a_client ''uvw'' 1 0 ''/gen'' (JArr [JStr ''hi'']))) =
     [Fire (Status_ev (Some Pending) True None None False),
      Wire (Join_post ''http://host/queue/join?'' (JArr [JStr ''hi'']) ''uvw'')]"
  by (simp add: init_heartbeat_def eventSource_factory_def typeof_window_def typeof_EventSource_def
      browser_def mux_config_def s1_config_def a_client_def on_payload_def submit_def sse_mux_def
      pending_ev_def)

subsection \<open>Registration of the callback\<close>

text \<open>
  Claim C8 fails on \<^verbatim>\<open>submit.ts\<close> when the join reply assigns the empty string: the
  id is then a member of \<^verbatim>\<open>unclosed_events\<close> and not a key of
  \<^verbatim>\<open>event_callbacks\<close>, before any frame was seen. \<^verbatim>\<open>part_003\<close> registers
  both.
\<close>

theorem empty_event_id_unclosed_only:
  "[] \<in> unclosed_events (snd (joined (mux_config Submit_ts ''sse_v3'') [])) \<and>
   event_callbacks (snd (joined (mux_config Submit_ts ''sse_v3'') [])) [] = None \<and>
   [] \<in> unclosed_events (snd (joined (mux_config Part_003 ''sse_v3'') [])) \<and>
   event_callbacks (snd (joined (mux_config Part_003 ''sse_v3'') [])) [] = Some 0"
  by (simp add: joined_def new_sub_mux join_reply_def register_def object_prototype_keys_def
      empty_regs_def version_mux_config)

subsection \<open>Exceptions in the frame callback\<close>

lemma handle_frame_throws_iff:
  "snd (snd (handle_frame c (s, r) f)) \<longleftrightarrow>
     (case fr_interp f of
        Throws \<Rightarrow> True
      | Handled t st d \<Rightarrow>
          (t = Log \<and> d = None) \<or>
          (t = Generating_msg \<and> diff_protocol c \<and>
           (case d of None \<Rightarrow> False
            | Some x \<Rightarrow> apply_diff_stream c (pending_diff_streams r) (js_key (event_id s)) x = None)))"
proof (cases "fr_interp f")
  case Throws
  then show ?thesis by (simp add: handle_frame_def)
next
  case (Handled t st d)
  then show ?thesis
    by (cases t; cases d)
      (simp_all add: handle_frame_def finish_def split: option.splits prod.splits)
qed

lemma handle_frame_no_close: "filter is_close_stream (fst (snd (handle_frame c sr f))) = []"
proof (cases "fr_interp f")
  case Throws
  then show ?thesis by (simp add: handle_frame_def split: prod.splits)
next
  case (Handled t st d)
  then show ?thesis
    by (cases sr; cases t; cases d)
      (simp_all add: handle_frame_def finish_def split: option.splits prod.splits)
qed

lemma handle_frame_throw_state:
  "snd (snd (handle_frame c sr f)) \<Longrightarrow> fst (handle_frame c sr f) = sr"
proof (cases "fr_interp f")
  case Throws
  then show ?thesis by (simp add: handle_frame_def split: prod.splits)
next
  case (Handled t st d)
  assume "snd (snd (handle_frame c sr f))"
  with Handled show ?thesis
    by (cases sr; cases t; cases d)
      (simp_all add: handle_frame_def finish_def split: option.splits if_splits prod.splits)
qed

text \<open>
  What the \<^verbatim>\<open>catch\<close> block does when handling a frame throws: the status event with
  stage error and the default message is the last event fired, and \<^verbatim>\<open>close_stream\<close>
  is called, once, under \<^verbatim>\<open>sse_v2\<close> and \<^verbatim>\<open>sse_v2.1\<close> only, with the
  \<^verbatim>\<open>stream_open\<close> and the stream variable of the closure.
\<close>

lemma callback_catch:
  "snd (snd (handle_frame c sr f)) \<Longrightarrow>
   last (fired (snd (callback c sr f))) =
     Status_ev (Some Error) True (Some ''An Unexpected Error Occurred!'') None False \<and>
   filter is_close_stream (snd (callback c sr f)) =
     (if protocol c = ''sse_v2'' \<or> protocol c = ''sse_v2.1''
      then [Close_stream (stream_open (fst sr)) (event_stream (fst sr))] else []) \<and>
   (protocol c = ''sse_v3'' \<longrightarrow> filter is_close_stream (snd (callback c sr f)) = [])"
proof -
  assume t: "snd (snd (handle_frame c sr f))"
  obtain sr' effs threw where h: "handle_frame c sr f = (sr', effs, threw)"
    by (cases "handle_frame c sr f") auto
  from t h have threw: threw by simp
  from handle_frame_throw_state [OF t] h have sr': "sr' = sr" by simp
  from handle_frame_no_close [of c sr f] h have nc: "filter is_close_stream effs = []" by simp
  obtain s r where sr: "sr = (s, r)" by (cases sr) auto
  have cb: "snd (callback c sr f) =
      effs @ [Console_error ''Unexpected client exception'', Fire unexpected_ev]
        @ (if closes_on_exception c then [Close_stream (stream_open s) (event_stream s)] else [])"
    using h threw sr' sr by (simp add: callback_def)
  show ?thesis
    using nc cb
    by (simp add: sr fired_append unexpected_ev_def default_message_def closes_on_exception_def)
qed

lemma invoked_append: "invoked e (a @ b) = invoked e a @ invoked e b"
  by (induction e a rule: invoked.induct) simp_all

lemma handle_frame_frame:
  "\<exists>s' r' effs threw.
     handle_frame c (s, r) f = ((s', r'), effs, threw) \<and>
     sid s' = sid s \<and> event_id s' = event_id s \<and> stream_open s' = stream_open s \<and>
     event_stream s' = event_stream s \<and>
     pending_stream_messages r' = pending_stream_messages r \<and>
     unclosed_events r' = unclosed_events r \<and>
     (event_callbacks r' = event_callbacks r \<or>
      event_callbacks r' = (event_callbacks r)(js_key (event_id s) := None)) \<and>
     invoked e effs = []"
proof (cases "fr_interp f")
  case Throws
  then show ?thesis by (auto simp: handle_frame_def)
next
  case (Handled t st d)
  then show ?thesis
    by (cases t; cases d)
      (auto simp: handle_frame_def finish_def unregister_def split: option.splits prod.splits)
qed

lemma callback_frame:
  "\<exists>s' r' effs.
     callback c (s, r) f = ((s', r'), effs) \<and>
     sid s' = sid s \<and> event_id s' = event_id s \<and> event_stream s' = event_stream s \<and>
     pending_stream_messages r' = pending_stream_messages r \<and>
     unclosed_events r' = unclosed_events r \<and>
     (event_callbacks r' = event_callbacks r \<or>
      event_callbacks r' = (event_callbacks r)(js_key (event_id s) := None)) \<and>
     invoked e effs = []"
proof -
  obtain s' r' effs threw where h: "handle_frame c (s, r) f = ((s', r'), effs, threw)"
    and p: "sid s' = sid s" "event_id s' = event_id s" "event_stream s' = event_stream s"
      "pending_stream_messages r' = pending_stream_messages r"
      "unclosed_events r' = unclosed_events r"
      "event_callbacks r' = event_callbacks r \<or>
       event_callbacks r' = (event_callbacks r)(js_key (event_id s) := None)"
      "invoked e effs = []"
    using handle_frame_frame [of c s r f e] by blast
  show ?thesis
    using p by (cases threw) (auto simp: callback_def h invoked_append)
qed

lemma stream_message_handle:
  "event_stream (fst (fst (stream_message c (s, r) f))) = event_stream s"
proof -
  obtain s' r' effs where "callback c (s, r) f = ((s', r'), effs)" "event_stream s' = event_stream s"
    using callback_frame [of c s r f "[]"] by blast
  then show ?thesis
    by (simp add: stream_message_def split: option.splits)
qed

lemma stream_messages_handle:
  "event_stream (fst (fst (stream_messages c (s, r) fs))) = event_stream s"
proof (induction fs arbitrary: s r)
  case Nil
  then show ?case by simp
next
  case (Cons f fs)
  obtain s1 r1 e1 where st: "stream_message c (s, r) f = ((s1, r1), e1)"
    by (cases "stream_message c (s, r) f") auto
  with stream_message_handle [of c s r f] have "event_stream s1 = event_stream s" by simp
  with Cons.IH [of s1 r1] show ?case
    by (auto simp: st split: prod.splits)
qed

lemma drain_handle: "event_stream (fst (fst (drain c e (s, r) ms))) = event_stream s"
proof (induction ms arbitrary: s r)
  case Nil
  then show ?case by simp
next
  case (Cons m ms)
  obtain s1 r1 e1 where cb: "callback c (s, r) m = ((s1, r1), e1)" "event_stream s1 = event_stream s"
    using callback_frame [of c s r m "[]"] by blast
  with Cons.IH [of s1 r1] show ?case
    by (auto simp: cb split: prod.splits)
qed

lemma join_reply_handle:
  "event_stream (fst (fst (join_reply c (s, r) e code))) = event_stream s"
proof (cases "pending_stream_messages r e")
  case None
  then show ?thesis by (simp add: join_reply_def register_def)
next
  case (Some ms)
  obtain s2 r2 es where dr: "drain c e (s\<lparr>event_id := Some e\<rparr>, r) ms = ((s2, r2), es)"
    by (cases "drain c e (s\<lparr>event_id := Some e\<rparr>, r) ms") auto
  with drain_handle [of c e "s\<lparr>event_id := Some e\<rparr>" r ms] have "event_stream s2 = event_stream s"
    by simp
  then show ?thesis
    using Some by (simp add: join_reply_def register_def dr)
qed

lemma on_payload_mux: "\<not> skip_queue c \<Longrightarrow> sse_mux c \<Longrightarrow> fst (on_payload en c s) = s"
  by (auto simp: on_payload_def sse_mux_def)

text \<open>
  On the multiplexed protocols the stream variable of the closure is never assigned: it is
  \<^verbatim>\<open>undefined\<close> when the join reply arrives, after the reply, and after any frames on
  the stream, so that is the handle every call of \<^verbatim>\<open>close_stream\<close> passes.
\<close>

lemma mux_handle_undefined:
  assumes "\<not> skip_queue c" and "sse_mux c"
  shows "event_stream (fst (fst (stream_messages c
           (after_reply en c (submit c cl rnd n fi ep pl) r fs1 e code) fs2))) = None"
proof -
  let ?s = "submit c cl rnd n fi ep pl"
  have a: "event_stream (fst (at_reply en c ?s r fs1)) = None"
    using stream_messages_handle [of c ?s r fs1]
    by (simp add: at_reply_def on_payload_mux [OF assms] submit_def)
  obtain s1 r1 where s1: "at_reply en c ?s r fs1 = (s1, r1)"
    by (cases "at_reply en c ?s r fs1") auto
  with a have "event_stream s1 = None" by simp
  with join_reply_handle [of c s1 r1 e code]
  have b: "event_stream (fst (after_reply en c ?s r fs1 e code)) = None"
    by (simp add: after_reply_def s1)
  obtain s2 r2 where s2: "after_reply en c ?s r fs1 e code = (s2, r2)"
    by (cases "after_reply en c ?s r fs1 e code") auto
  with b stream_messages_handle [of c s2 r2 fs2] show ?thesis
    by simp
qed

lemma new_sub_mux_v2:
  "new_sub (mux_config v ''sse_v2'') =
     \<lparr> sid = 0, fn_index = 0, endpoint = ''/gen'', payload = JArr [JStr ''hi''],
       session_hash = (case v of Submit_ts \<Rightarrow> ''xyz'' | Part_003 \<Rightarrow> ''abc''),
       event_id = None, complete = None, listener_map = Map.empty,
       websocket_defined = False, event_stream = None, stream_open = False \<rparr>"
  by (cases v)
    (simp_all add: new_sub_def mux_config_def s1_config_def on_payload_def submit_def sse_mux_def
      a_client_def browser_def)

lemma joined_v2:
  "joined (mux_config v ''sse_v2'') ''E1'' =
     ((new_sub (mux_config v ''sse_v2''))\<lparr>event_id := Some ''E1''\<rparr>,
      empty_regs\<lparr>event_callbacks := [''E1'' \<mapsto> 0], unclosed_events := {''E1''}\<rparr>)"
  by (simp add: joined_def join_reply_def register_def object_prototype_keys_def empty_regs_def
      new_sub_mux_v2 version_mux_config)

text \<open>
  Claim C6 fails on the code in its second half. Under \<^verbatim>\<open>sse_v2\<close>, after
  \<^verbatim>\<open>submit("/gen", ["hi"])\<close> and a join reply that assigns \<^verbatim>\<open>E1\<close>, a frame
  whose handling throws makes the callback fire the status with stage error and the default
  message, and then call \<^verbatim>\<open>close_stream(false, undefined)\<close>: the call is given no
  stream to close. Both copies of the file behave so.
\<close>

theorem close_stream_without_handle:
  "snd (callback (mux_config Submit_ts ''sse_v2'') (joined (mux_config Submit_ts ''sse_v2'') ''E1'')
          throwing_frame) =
     [Console_error ''Unexpected client exception'',
      Fire (Status_ev (Some Error) True (Some ''An Unexpected Error Occurred!'') None False),
      Close_stream False None] \<and>
   snd (callback (mux_config Part_003 ''sse_v2'') (joined (mux_config Part_003 ''sse_v2'') ''E1'')
          throwing_frame) =
     [Console_error ''Unexpected client exception'',
      Fire (Status_ev (Some Error) True (Some ''An Unexpected Error Occurred!'') None False),
      Close_stream False None]"
  by (simp add: joined_v2 new_sub_mux_v2 callback_def handle_frame_def throwing_frame_def
      protocol_mux_config version_mux_config closes_on_exception_def unexpected_ev_def
      default_message_def)

lemma apply_diff_stream_mux_config:
  "apply_diff_stream (mux_config v p) = (\<lambda>m e x. Some (m(e \<mapsto> hd_data x), x))"
  by (simp add: mux_config_def s1_config_def)

lemma joined_E1:
  "joined (mux_config v ''sse_v3'') ''E1'' =
     ((new_sub (mux_config v ''sse_v3''))\<lparr>event_id := Some ''E1''\<rparr>,
      empty_regs\<lparr>event_callbacks := [''E1'' \<mapsto> 0], unclosed_events := {''E1''}\<rparr>)"
  by (simp add: joined_def join_reply_def register_def object_prototype_keys_def empty_regs_def
      new_sub_mux version_mux_config)

lemmas run_simps =
  stream_message_def callback_def handle_frame_def finish_def frame_key_def js_key_def
  terminal_status_def status_ev_def generating_ev_def deferred_ev_def unregister_def
  diff_protocol_def closes_on_exception_def unexpected_ev_def default_message_def
  status_of_def only_data_def starts_frame_def gen_frame_def done_frame_def throwing_frame_def
  protocol_mux_config version_mux_config apply_diff_stream_mux_config joined_E1 new_sub_mux
  empty_regs_def fired_append join_reply_def register_def object_prototype_keys_def

subsection \<open>Frames that arrive before the join reply\<close>

lemma stream_message_unregistered:
  assumes "event_callbacks r e = None"
  shows "\<exists>s' r' effs.
     stream_message c (s, r) f = ((s', r'), effs) \<and>
     event_callbacks r' e = None \<and>
     buffered r' e = buffered r e @ (if frame_key f = e then [f] else []) \<and>
     invoked e effs = []"
proof (cases "if fr_event_id f = None then None else event_callbacks r (frame_key f)")
  case None
  then show ?thesis
    using assms by (simp add: stream_message_def buffered_def)
next
  case (Some owner)
  then have ne: "frame_key f \<noteq> e"
    using assms by (auto split: if_splits)
  show ?thesis
  proof (cases "owner = sid s")
    case True
    obtain s' r' effs where cb: "callback c (s, r) f = ((s', r'), effs)"
      and p: "pending_stream_messages r' = pending_stream_messages r"
        "event_callbacks r' = event_callbacks r \<or>
         event_callbacks r' = (event_callbacks r)(js_key (event_id s) := None)"
        "invoked e effs = []"
      using callback_frame [of c s r f e] by blast
    from p(2) assms have "event_callbacks r' e = None" by auto
    then show ?thesis
      using Some True ne p by (simp add: stream_message_def cb buffered_def)
  next
    case False
    then show ?thesis
      using Some ne assms by (simp add: stream_message_def)
  qed
qed

lemma stream_messages_unregistered:
  "event_callbacks r e = None \<Longrightarrow>
   \<exists>s' r' effs.
     stream_messages c (s, r) fs = ((s', r'), effs) \<and>
     event_callbacks r' e = None \<and>
     buffered r' e = buffered r e @ frames_for e fs \<and>
     invoked e effs = []"
proof (induction fs arbitrary: s r)
  case Nil
  then show ?case by (simp add: frames_for_def)
next
  case (Cons f fs)
  obtain s1 r1 e1 where st: "stream_message c (s, r) f = ((s1, r1), e1)"
    and p1: "event_callbacks r1 e = None"
      "buffered r1 e = buffered r e @ (if frame_key f = e then [f] else [])"
      "invoked e e1 = []"
    using stream_message_unregistered [OF Cons.prems, of c s f] by blast
  obtain s2 r2 e2 where sts: "stream_messages c (s1, r1) fs = ((s2, r2), e2)"
    and p2: "event_callbacks r2 e = None"
      "buffered r2 e = buffered r1 e @ frames_for e fs"
      "invoked e e2 = []"
    using Cons.IH [OF p1(1), of s1] by blast
  show ?case
    using p1 p2 by (simp add: st sts invoked_append frames_for_def)
qed

lemma replay_state_Cons:
  "replay_state c sr (m # ms) = replay_state c (fst (callback c sr m)) ms"
  by (simp add: replay_state_def)

lemma replay_events_Nil: "replay_events c sr [] = []"
  by (simp add: replay_events_def)

lemma replay_events_Cons:
  "replay_events c sr (m # ms) =
     fired (snd (callback c sr m)) @ replay_events c (fst (callback c sr m)) ms"
  by (simp add: replay_events_def map_upt_Suc replay_state_Cons del: upt_Suc)
    (simp add: replay_state_def)

text \<open>
  The loop over the waiting frames is the callback applied to each frame once, in order: it
  leaves the state that these calls leave, fires the events that these calls fire, and records
  one call per frame.
\<close>

lemma drain_replays:
  "fst (drain c e sr ms) = replay_state c sr ms \<and>
   fired (snd (drain c e sr ms)) = replay_events c sr ms"
proof (induction ms arbitrary: sr)
  case Nil
  then show ?case by (simp add: replay_state_def replay_events_Nil)
next
  case (Cons m ms)
  obtain sr1 e1 where cb: "callback c sr m = (sr1, e1)"
    by (cases "callback c sr m") auto
  obtain sr2 e2 where dr: "drain c e sr1 ms = (sr2, e2)"
    by (cases "drain c e sr1 ms") auto
  from Cons.IH [of sr1] dr have "sr2 = replay_state c sr1 ms" "fired e2 = replay_events c sr1 ms"
    by simp_all
  then show ?case
    by (simp add: cb dr replay_state_Cons replay_events_Cons fired_append)
qed

lemma drain_frame:
  "\<exists>s' r' effs.
     drain c e (s, r) ms = ((s', r'), effs) \<and>
     pending_stream_messages r' = pending_stream_messages r \<and>
     invoked e effs = ms"
proof (induction ms arbitrary: s r)
  case Nil
  then show ?case by simp
next
  case (Cons m ms)
  obtain s1 r1 e1 where cb: "callback c (s, r) m = ((s1, r1), e1)"
    and p1: "pending_stream_messages r1 = pending_stream_messages r" "invoked e e1 = []"
    using callback_frame [of c s r m e] by blast
  obtain s2 r2 e2 where dr: "drain c e (s1, r1) ms = ((s2, r2), e2)"
    and p2: "pending_stream_messages r2 = pending_stream_messages r1" "invoked e e2 = ms"
    using Cons.IH [of s1 r1] by blast
  show ?case
    using p1 p2 by (simp add: cb dr invoked_append)
qed

lemma join_reply_drains:
  "\<exists>s' r' effs.
     join_reply c (s, r) e 200 = ((s', r'), effs) \<and>
     invoked e effs = buffered r e \<and>
     fired effs = replay_events c (s\<lparr>event_id := Some e\<rparr>, r) (buffered r e) \<and>
     s' = fst (replay_state c (s\<lparr>event_id := Some e\<rparr>, r) (buffered r e)) \<and>
     pending_stream_messages r' e = None"
proof (cases "pending_stream_messages r e")
  case None
  then show ?thesis
    by (auto simp: join_reply_def register_def buffered_def replay_events_Nil replay_state_def)
next
  case (Some ms)
  obtain s2 r2 es where dr: "drain c e (s\<lparr>event_id := Some e\<rparr>, r) ms = ((s2, r2), es)"
    and p: "pending_stream_messages r2 = pending_stream_messages r" "invoked e es = ms"
    using drain_frame [of c e "s\<lparr>event_id := Some e\<rparr>" r ms] by blast
  from drain_replays [of c e "(s\<lparr>event_id := Some e\<rparr>, r)" ms] dr
  have q: "(s2, r2) = replay_state c (s\<lparr>event_id := Some e\<rparr>, r) ms"
    "fired es = replay_events c (s\<lparr>event_id := Some e\<rparr>, r) ms"
    by simp_all
  from q(1) have q1: "s2 = fst (replay_state c (s\<lparr>event_id := Some e\<rparr>, r) ms)"
    by (metis fst_conv)
  show ?thesis
    using Some p q(2) q1
    by (simp add: join_reply_def register_def buffered_def dr invoked_append fired_append)
qed

lemma gen_frames_replay:
  "fired (snd (join_reply (mux_config Part_003 ''sse_v3'')
             (fst (stream_messages (mux_config Part_003 ''sse_v3'')
                     (new_sub (mux_config Part_003 ''sse_v3''), empty_regs)
                     [gen_frame ''E2'' (JArr [JNum 1]), starts_frame ''E9'', gen_frame ''E2'' (JArr [JNum 2])]))
             ''E2'' 200)) =
     [Status_ev (Some Generating) True None None False, Data_ev (JArr [JNum 1]),
      Status_ev (Some Generating) True None None False, Data_ev (JArr [JNum 2])]"
  by (simp add: run_simps)

text \<open>
  Claim C3: while no callback is registered under \<open>e\<close>, every frame for \<open>e\<close> that
  arrives on the stream is appended to \<^verbatim>\<open>pending_stream_messages[e]\<close> and no callback
  is called for \<open>e\<close>. When the join reply then assigns \<open>e\<close>, the frames waiting under
  \<open>e\<close> are passed to the callback of the submission, each once and in their order of
  arrival: one call is made per frame, the events fired and the state left are those of the
  callback applied to the frames in turn, and the entry is deleted.
\<close>

theorem early_frames_replayed_once:
  "event_callbacks r e = None \<Longrightarrow>
   (case stream_messages c (s, r) fs of
      (sr1, e1) \<Rightarrow>
        (case join_reply c sr1 e 200 of
           (sr2, e2) \<Rightarrow>
             invoked e e1 = [] \<and>
             buffered (snd sr1) e = buffered r e @ frames_for e fs \<and>
             invoked e e2 = buffered r e @ frames_for e fs \<and>
             fired e2 =
               replay_events c ((fst sr1)\<lparr>event_id := Some e\<rparr>, snd sr1)
                 (buffered r e @ frames_for e fs) \<and>
             fst sr2 =
               fst (replay_state c ((fst sr1)\<lparr>event_id := Some e\<rparr>, snd sr1)
                      (buffered r e @ frames_for e fs)) \<and>
             pending_stream_messages (snd sr2) e = None))"
proof -
  assume u: "event_callbacks r e = None"
  obtain s1 r1 e1 where st: "stream_messages c (s, r) fs = ((s1, r1), e1)"
    and p1: "buffered r1 e = buffered r e @ frames_for e fs" "invoked e e1 = []"
    using stream_messages_unregistered [OF u, of c s fs] by blast
  obtain s2 r2 e2 where jr: "join_reply c (s1, r1) e 200 = ((s2, r2), e2)"
    and p2: "invoked e e2 = buffered r1 e"
      "fired e2 = replay_events c (s1\<lparr>event_id := Some e\<rparr>, r1) (buffered r1 e)"
      "s2 = fst (replay_state c (s1\<lparr>event_id := Some e\<rparr>, r1) (buffered r1 e))"
      "pending_stream_messages r2 e = None"
    using join_reply_drains [of c s1 r1 e] by blast
  show ?thesis
    using p1 p2 by (simp add: st jr)
qed

theorem early_frames_replayed_once_witness:
  "event_callbacks empty_regs ''E2'' = None \<and>
   invoked ''E2''
     (snd (join_reply (mux_config Part_003 ''sse_v3'')
             (fst (stream_messages (mux_config Part_003 ''sse_v3'')
                     (new_sub (mux_config Part_003 ''sse_v3''), empty_regs)
                     [gen_frame ''E2'' (JArr [JNum 1]), starts_frame ''E9'', gen_frame ''E2'' (JArr [JNum 2])]))
             ''E2'' 200)) =
     [gen_frame ''E2'' (JArr [JNum 1]), gen_frame ''E2'' (JArr [JNum 2])] \<and>
   replay_events (mux_config Part_003 ''sse_v3'')
     ((fst (fst (stream_messages (mux_config Part_003 ''sse_v3'')
                     (new_sub (mux_config Part_003 ''sse_v3''), empty_regs)
                     [gen_frame ''E2'' (JArr [JNum 1]), starts_frame ''E9'', gen_frame ''E2'' (JArr [JNum 2])])))
        \<lparr>event_id := Some ''E2''\<rparr>,
      snd (fst (stream_messages (mux_config Part_003 ''sse_v3'')
                     (new_sub (mux_config Part_003 ''sse_v3''), empty_regs)
                     [gen_frame ''E2'' (JArr [JNum 1]), starts_frame ''E9'', gen_frame ''E2'' (JArr [JNum 2])])))
     [gen_frame ''E2'' (JArr [JNum 1]), gen_frame ''E2'' (JArr [JNum 2])] =
     [Status_ev (Some Generating) True None None False, Data_ev (JArr [JNum 1]),
      Status_ev (Some Generating) True None None False, Data_ev (JArr [JNum 2])] \<and>
   pending_stream_messages
     (snd (fst (join_reply (mux_config Part_003 ''sse_v3'')
             (fst (stream_messages (mux_config Part_003 ''sse_v3'')
                     (new_sub (mux_config Part_003 ''sse_v3''), empty_regs)
                     [gen_frame ''E2'' (JArr [JNum 1]), starts_frame ''E9'', gen_frame ''E2'' (JArr [JNum 2])]))
             ''E2'' 200))) ''E2'' = None"
  using early_frames_replayed_once [where r = empty_regs and e = "''E2''"
      and c = "mux_config Part_003 ''sse_v3''" and s = "new_sub (mux_config Part_003 ''sse_v3'')"
      and fs = "[gen_frame ''E2'' (JArr [JNum 1]), starts_frame ''E9'', gen_frame ''E2'' (JArr [JNum 2])]"]
    gen_frames_replay
  by (simp add: case_prod_beta buffered_def frames_for_def frame_key_def empty_regs_def
      gen_frame_def starts_frame_def)

subsection \<open>The terminal status\<close>






























end
